theory Spec2Isabelle
  imports Main "HOL-Library.Sublist"
begin

section \<open>Data model of the pairing service\<close>

text \<open>
  The three request handlers of the repository (\<open>api/request-pairing.js\<close>,
  \<open>api/session-status/[sessionId].js\<close>, \<open>api/sessions.js\<close>) share one piece of state,
  the map \<open>global.activeSessions\<close>. The embedding threads a \<open>world\<close> record through
  every function: the registry, the part of the local file system the code touches, the
  console, and the list of calls made to external collaborators (file reads, the remote
  content API, the pairing-code request). External libraries (the protocol transport,
  the content API client, \<open>Buffer\<close>) are fields of an \<open>env\<close> record, so every theorem
  holds for any behaviour of theirs.
\<close>

datatype error = Error (message: string)

datatype status = waiting | connected | disconnected

datatype sock = Sock string

datatype saveCreds = SaveCreds string

record session =
  phoneNumber :: string
  status :: status
  sock :: sock
  saveCreds :: saveCreds
  sessionPath :: string
  connectedAt :: "nat option"
  githubUrl :: "string option"

datatype fsentry = File string | SubDir

record put_request =
  put_owner :: string
  put_repo :: "string option"
  put_path :: string
  put_message :: string
  put_content :: string
  put_sha :: "string option"

datatype call =
    ReadDir string
  | ReadFile string
  | GetContent string "string option" string
  | CreateOrUpdateFileContents put_request
  | RequestPairingCode sock string

datatype logline =
    LogUploaded string
  | LogErrorUploading string string
  | LogSessionUploaded string
  | LogErrorUploadingToGithub error
  | LogPairingCode string string
  | LogPairingError error
  | LogConnected string
  | LogSessionFilesUploaded
  | LogGithubUploadFailed error
  | LogLoggedOut string
  | LogApiError error

record world =
  activeSessions :: "(string \<times> session) list"
  fs :: "string \<Rightarrow> (string \<times> fsentry) list option"
  console :: "logline list"
  calls :: "call list"

record env =
  GITHUB_REPO_URL :: "string option"
  loggedOut :: int
  mkdirSync_error :: "string \<Rightarrow> error option"
  useMultiFileAuthState :: "string \<Rightarrow> error + bool"
  makeWASocket :: "string \<Rightarrow> error + sock"
  requestPairingCode :: "sock \<Rightarrow> string \<Rightarrow> error + string"
  getContent :: "string \<Rightarrow> string option \<Rightarrow> string \<Rightarrow> string option"
  createOrUpdateFileContents :: "put_request \<Rightarrow> error option"
  base64 :: "string \<Rightarrow> string"

text \<open>
  \<open>fs w p\<close> is the listing of directory \<open>p\<close> (\<open>None\<close>: no such directory); an entry is a
  file with its content or a subdirectory. \<open>useMultiFileAuthState env p\<close> is the outcome of
  loading the auth state staged under \<open>p\<close>: an exception, or \<open>state.creds.registered\<close>.
  \<open>getContent env owner repo path\<close> is the \<open>sha\<close> of the existing remote file, \<open>None\<close> when
  the probe is rejected (the source turns a rejection into \<open>{ data: null }\<close>).
  \<open>loggedOut env\<close> is the constant \<open>DisconnectReason.loggedOut\<close> of the transport library.
\<close>

subsection \<open>The registry: a JavaScript Map\<close>

text \<open>
  A \<open>Map\<close> iterates in insertion order, and \<open>set\<close> on a key already present keeps the
  key's position. An association list with in-place update has both properties.
\<close>

fun Map_get :: "'k \<Rightarrow> ('k \<times> 'v) list \<Rightarrow> 'v option" where
  "Map_get k [] = None"
| "Map_get k ((k', v) # m) = (if k' = k then Some v else Map_get k m)"

fun Map_set :: "'k \<Rightarrow> 'v \<Rightarrow> ('k \<times> 'v) list \<Rightarrow> ('k \<times> 'v) list" where
  "Map_set k v [] = [(k, v)]"
| "Map_set k v ((k', v') # m) = (if k' = k then (k, v) # m else (k', v') # Map_set k v m)"

subsection \<open>Strings\<close>

definition digit_char :: "nat \<Rightarrow> char" where
  "digit_char n = ''0123456789'' ! n"

fun string_of_nat :: "nat \<Rightarrow> string" where
  "string_of_nat n =
     (if n < 10 then [digit_char n] else string_of_nat (n div 10) @ [digit_char (n mod 10)])"

declare string_of_nat.simps [simp del]

fun join :: "string \<Rightarrow> string list \<Rightarrow> string" where
  "join sep [] = []"
| "join sep [x] = x"
| "join sep (x # y # ys) = x @ sep @ join sep (y # ys)"

text \<open>\<open>s.split('/')\<close>: never empty, \<open>''''.split('/')\<close> is \<open>['''']\<close>.\<close>

fun split :: "char \<Rightarrow> string \<Rightarrow> string list" where
  "split c [] = [[]]"
| "split c (x # xs) =
     (if x = c then [] # split c xs
      else (x # hd (split c xs)) # tl (split c xs))"

text \<open>
  \<open>path.join\<close> on segments that are non-empty and contain no separator and no dot
  segment, which is what the source passes (\<open>'/tmp'\<close>, \<open>'sessions'\<close>, a string of digits,
  a directory entry name): the segments joined by \<open>/\<close>.
\<close>

definition path_join :: "string list \<Rightarrow> string" where
  "path_join segs = join ''/'' segs"

definition isDigit :: "char \<Rightarrow> bool" where
  "isDigit c = (c \<in> set ''0123456789'')"

definition isLineTerminator :: "char \<Rightarrow> bool" where
  "isLineTerminator c = (c = CHR 0x0A \<or> c = CHR 0x0D)"

text \<open>
  \<open>code.match(/.{1,4}/g)\<close>: from the current index, the longest run of at most four
  characters other than line terminators; an empty run moves the index by one. The empty
  list stands for the \<open>null\<close> that \<open>match\<close> returns when nothing matches.
\<close>

function match_groups :: "string \<Rightarrow> string list" where
  "match_groups s =
     (if s = [] then []
      else let g = take 4 (takeWhile (\<lambda>c. \<not> isLineTerminator c) s)
           in if g = [] then match_groups (tl s)
              else g # match_groups (drop (length g) s))"
  by pat_completeness auto
termination
  by (relation "measure length") (auto simp: Let_def)

declare match_groups.simps [simp del]

text \<open>\<open>code?.match(/.{1,4}/g)?.join("-") || code\<close>\<close>

definition formatPairingCode :: "string \<Rightarrow> string" where
  "formatPairingCode code =
     (case (case match_groups code of [] \<Rightarrow> None | g # gs \<Rightarrow> Some (join ''-'' (g # gs))) of
        None \<Rightarrow> code
      | Some joined \<Rightarrow> if joined = [] then code else joined)"

section \<open>Remote-store configuration\<close>

text \<open>
  \<open>GITHUB_REPO_URL.match(/github\.com\/([^\/]+)\/([^\/]+)/)\<close> at one start position:
  the literal, a maximal run of characters other than \<open>/\<close> (at least one), a \<open>/\<close>, and
  again a maximal non-empty run. Giving back characters of a run cannot help, since the
  character that would follow is not a \<open>/\<close>.
\<close>

definition match_github_at :: "string \<Rightarrow> (string \<times> string) option" where
  "match_github_at s =
     (if prefix ''github.com/'' s then
        (let rest = drop 11 s;
             owner = takeWhile (\<lambda>c. c \<noteq> CHR ''/'') rest
         in if owner = [] then None
            else (case dropWhile (\<lambda>c. c \<noteq> CHR ''/'') rest of
                    [] \<Rightarrow> None
                  | _ # r \<Rightarrow>
                      (let repo = takeWhile (\<lambda>c. c \<noteq> CHR ''/'') r
                       in if repo = [] then None else Some (owner, repo))))
      else None)"

fun match_github :: "string \<Rightarrow> (string \<times> string) option" where
  "match_github [] = None"
| "match_github (c # cs) =
     (case match_github_at (c # cs) of
        Some r \<Rightarrow> Some r
      | None \<Rightarrow> match_github cs)"

definition parseGithubRepo :: "string option \<Rightarrow> error + (string \<times> string option)" where
  "parseGithubRepo url =
     (case url of
        None \<Rightarrow> Inl (Error ''GITHUB_REPO_URL not set'')
      | Some u \<Rightarrow>
          if u = [] then Inl (Error ''GITHUB_REPO_URL not set'')
          else (case match_github u of
                  Some (owner, repo) \<Rightarrow> Inr (owner, Some repo)
                | None \<Rightarrow>
                    (let parts = split CHR ''/'' u
                     in Inr (hd parts, if 1 < length parts then Some (parts ! 1) else None))))"

text \<open>A template literal prints \<open>undefined\<close> for a missing value.\<close>

definition show_opt :: "string option \<Rightarrow> string" where
  "show_opt x = (case x of None \<Rightarrow> ''undefined'' | Some s \<Rightarrow> s)"

section \<open>Credential upload\<close>

text \<open>
  One iteration of the loop over the staged files. The two reads are outside the inner
  \<open>try\<close>, so a failed read leaves the loop with an exception; a rejected
  \<open>createOrUpdateFileContents\<close> is caught inside the iteration and logged.
\<close>

definition upload_file ::
  "env \<Rightarrow> string \<Rightarrow> string option \<Rightarrow> string \<Rightarrow> string \<Rightarrow> string \<Rightarrow>
   string \<times> fsentry \<Rightarrow> world \<Rightarrow> error option \<times> world" where
  "upload_file env owner repo sessionFolder phone dir entry w =
     (let file = fst entry;
          filePath = path_join [dir, file];
          w1 = w\<lparr>calls := calls w @ [ReadFile filePath]\<rparr>
      in case snd entry of
           SubDir \<Rightarrow> (Some (Error ''EISDIR: illegal operation on a directory, read''), w1)
         | File content \<Rightarrow>
             (let base64Content = base64 env content;
                  remotePath = sessionFolder @ ''/'' @ file;
                  w2 = w1\<lparr>calls := calls w1 @ [GetContent owner repo remotePath]\<rparr>;
                  existingSha = getContent env owner repo remotePath;
                  req = \<lparr>put_owner = owner, put_repo = repo, put_path = remotePath,
                         put_message = ''Update session file for '' @ phone,
                         put_content = base64Content, put_sha = existingSha\<rparr>;
                  w3 = w2\<lparr>calls := calls w2 @ [CreateOrUpdateFileContents req]\<rparr>
              in case createOrUpdateFileContents env req of
                   None \<Rightarrow> (None, w3\<lparr>console := console w3 @ [LogUploaded file]\<rparr>)
                 | Some e \<Rightarrow>
                     (None, w3\<lparr>console := console w3 @ [LogErrorUploading file (message e)]\<rparr>)))"

fun upload_files ::
  "env \<Rightarrow> string \<Rightarrow> string option \<Rightarrow> string \<Rightarrow> string \<Rightarrow> string \<Rightarrow>
   (string \<times> fsentry) list \<Rightarrow> world \<Rightarrow> error option \<times> world" where
  "upload_files env owner repo sessionFolder phone dir [] w = (None, w)"
| "upload_files env owner repo sessionFolder phone dir (entry # files) w =
     (case upload_file env owner repo sessionFolder phone dir entry w of
        (Some e, w') \<Rightarrow> (Some e, w')
      | (None, w') \<Rightarrow> upload_files env owner repo sessionFolder phone dir files w')"

definition uploadSessionToGithub ::
  "env \<Rightarrow> string \<Rightarrow> string \<Rightarrow> world \<Rightarrow> (error + string) \<times> world" where
  "uploadSessionToGithub env phone dir w =
     (case parseGithubRepo (GITHUB_REPO_URL env) of
        Inl e \<Rightarrow> (Inl e, w\<lparr>console := console w @ [LogErrorUploadingToGithub e]\<rparr>)
      | Inr (owner, repo) \<Rightarrow>
          (let sessionFolder = ''sessions/'' @ phone;
               w1 = w\<lparr>calls := calls w @ [ReadDir dir]\<rparr>
           in case fs w1 dir of
                None \<Rightarrow>
                  (let e = Error ''ENOENT: no such file or directory, scandir''
                   in (Inl e, w1\<lparr>console := console w1 @ [LogErrorUploadingToGithub e]\<rparr>))
              | Some files \<Rightarrow>
                  (case upload_files env owner repo sessionFolder phone dir files w1 of
                     (Some e, w2) \<Rightarrow>
                       (Inl e, w2\<lparr>console := console w2 @ [LogErrorUploadingToGithub e]\<rparr>)
                   | (None, w2) \<Rightarrow>
                       (let githubUrl = ''https://github.com/'' @ owner @ ''/'' @ show_opt repo
                                         @ ''/tree/main/'' @ sessionFolder
                        in (Inr githubUrl,
                            w2\<lparr>console := console w2 @ [LogSessionUploaded githubUrl]\<rparr>)))))"

section \<open>Session creation\<close>

definition new_sessionId :: "string \<Rightarrow> nat \<Rightarrow> string" where
  "new_sessionId phone now = ''session_'' @ phone @ ''_'' @ string_of_nat now"

definition new_sessionPath :: "string \<Rightarrow> string" where
  "new_sessionPath phone = path_join [''/tmp'', ''sessions'', phone]"

text \<open>
  \<open>startPairing\<close>; \<open>now\<close> is the value of \<open>Date.now()\<close>. The directory is created before the
  \<open>try\<close> block, so an exception of \<open>mkdirSync\<close> is not logged by \<open>startPairing\<close>. The
  record is stored before the pairing code is requested, and the \<open>catch\<close> block only logs
  and rethrows.
\<close>

definition startPairing ::
  "env \<Rightarrow> nat \<Rightarrow> string \<Rightarrow> world \<Rightarrow> (error + string \<times> string option) \<times> world" where
  "startPairing env now phone w =
     (let sessionId = new_sessionId phone now;
          dir = new_sessionPath phone
      in case (if fs w dir = None
               then (case mkdirSync_error env dir of
                       Some e \<Rightarrow> Inl e
                     | None \<Rightarrow> Inr (w\<lparr>fs := (fs w)(dir \<mapsto> [])\<rparr>))
               else Inr w) of
           Inl e \<Rightarrow> (Inl e, w)
         | Inr w1 \<Rightarrow>
             (case useMultiFileAuthState env dir of
                Inl e \<Rightarrow> (Inl e, w1\<lparr>console := console w1 @ [LogPairingError e]\<rparr>)
              | Inr registered \<Rightarrow>
                  (case makeWASocket env dir of
                     Inl e \<Rightarrow> (Inl e, w1\<lparr>console := console w1 @ [LogPairingError e]\<rparr>)
                   | Inr sk \<Rightarrow>
                       (let w2 = w1\<lparr>activeSessions :=
                                  Map_set sessionId
                                    \<lparr>phoneNumber = phone, status = waiting, sock = sk,
                                     saveCreds = SaveCreds dir,
                                     sessionPath = dir,
                                     connectedAt = None, githubUrl = None\<rparr>
                                    (activeSessions w1)\<rparr>
                        in if \<not> registered then
                             (let w3 = w2\<lparr>calls := calls w2 @ [RequestPairingCode sk phone]\<rparr>
                              in case requestPairingCode env sk phone of
                                   Inl e \<Rightarrow>
                                     (Inl e, w3\<lparr>console := console w3 @ [LogPairingError e]\<rparr>)
                                 | Inr code \<Rightarrow>
                                     (let pairingCode = formatPairingCode code
                                      in (Inr (sessionId, Some pairingCode),
                                          w3\<lparr>console := console w3
                                                @ [LogPairingCode phone pairingCode]\<rparr>)))
                           else (Inr (sessionId, None), w2)))))"

section \<open>Connection events\<close>

datatype connection = Open | Close | Connecting

record update =
  connection :: "connection option"
  statusCode :: "int option"

text \<open>
  \<open>statusCode u\<close> is \<open>lastDisconnect?.error?.output?.statusCode\<close>, \<open>None\<close> when any link of
  the chain is missing. \<open>fs.rmSync(p, { recursive: true, force: true })\<close> removes the
  directory and everything below it.
\<close>

definition rmSync :: "string \<Rightarrow> (string \<Rightarrow> (string \<times> fsentry) list option)
    \<Rightarrow> (string \<Rightarrow> (string \<times> fsentry) list option)" where
  "rmSync p f = (\<lambda>q. if q = p \<or> prefix (p @ ''/'') q then None else f q)"

text \<open>
  The listener registered on \<open>connection.update\<close>. It closes over \<open>sessionId\<close>,
  \<open>phoneNumber\<close> (here \<open>phone\<close>) and \<open>sessionPath\<close> (here \<open>dir\<close>); \<open>now\<close> is
  \<open>Date.now()\<close> at the event. The listener mutates the object it read from the registry.
  The model handles one event at a time, from its first statement to its last, so the
  mutation is an update of the registry slot; what other requests and events do while the
  upload awaits the remote store is outside the model. Writing a property of a missing
  record is a \<open>TypeError\<close>.
\<close>

definition onConnectionUpdate ::
  "env \<Rightarrow> string \<Rightarrow> string \<Rightarrow> string \<Rightarrow> nat \<Rightarrow> update \<Rightarrow> world \<Rightarrow> error option \<times> world" where
  "onConnectionUpdate env sessionId phone dir now u w =
     (let session = Map_get sessionId (activeSessions w)
      in if connection u = Some Open then
           (let w1 = w\<lparr>console := console w @ [LogConnected phone]\<rparr>
            in case session of
                 None \<Rightarrow> (Some (Error ''TypeError: Cannot set properties of undefined''), w1)
               | Some s \<Rightarrow>
                   (let s1 = s\<lparr>status := connected, connectedAt := Some now\<rparr>;
                        w2 = w1\<lparr>activeSessions := Map_set sessionId s1 (activeSessions w1)\<rparr>
                    in case uploadSessionToGithub env phone dir w2 of
                         (Inr url, w3) \<Rightarrow>
                           (None,
                            w3\<lparr>activeSessions :=
                                 Map_set sessionId (s1\<lparr>githubUrl := Some url\<rparr>) (activeSessions w3),
                               console := console w3 @ [LogSessionFilesUploaded]\<rparr>)
                       | (Inl e, w3) \<Rightarrow>
                           (None, w3\<lparr>console := console w3 @ [LogGithubUploadFailed e]\<rparr>)))
         else if connection u = Some Close then
           (let shouldReconnect = (statusCode u \<noteq> Some (loggedOut env))
            in if \<not> shouldReconnect then
                 (let w1 = w\<lparr>console := console w @ [LogLoggedOut phone]\<rparr>
                  in case session of
                       None \<Rightarrow> (Some (Error ''TypeError: Cannot set properties of undefined''), w1)
                     | Some s \<Rightarrow>
                         (let w2 = w1\<lparr>activeSessions :=
                                    Map_set sessionId (s\<lparr>status := disconnected\<rparr>)
                                      (activeSessions w1)\<rparr>
                          in (None,
                              if fs w2 dir \<noteq> None
                              then w2\<lparr>fs := rmSync dir (fs w2)\<rparr>
                              else w2)))
               else (None, w))
         else (None, w))"

section \<open>Request handlers\<close>

record request =
  req_method :: string
  body_phoneNumber :: "string option"
  query_sessionId :: "string option"

datatype listing =
  Listing (listing_id: string) string "nat option" "nat option" "string option"

datatype json =
    JsonError string
  | JsonFailure string
  | JsonPairing string "string option" string
  | JsonStatus status string "nat option" "string option"
  | JsonSessions "listing list"

record response =
  res_status :: nat
  res_json :: json

text \<open>
  A request carries the method, the \<open>phoneNumber\<close> property of a JSON object body (a
  string, or missing) and the \<open>sessionId\<close> of the query (a string, or missing).
  \<open>JsonError e\<close> is \<open>{ error: e }\<close>, \<open>JsonFailure e\<close> is \<open>{ success: false, error: e }\<close>,
  \<open>JsonPairing\<close> is \<open>{ success: true, sessionId, pairingCode, phoneNumber }\<close>, \<open>JsonStatus\<close>
  is \<open>{ status, phoneNumber, connectedAt, githubUrl }\<close>, and a \<open>Listing\<close> is
  \<open>{ id, phoneNumber, connectedAt, lastActivity, githubUrl }\<close>.
\<close>

definition handler_request_pairing ::
  "env \<Rightarrow> nat \<Rightarrow> request \<Rightarrow> world \<Rightarrow> response \<times> world" where
  "handler_request_pairing env now req w =
     (if req_method req \<noteq> ''POST'' then
        (\<lparr>res_status = 405, res_json = JsonError ''Method not allowed''\<rparr>, w)
      else case body_phoneNumber req of
             None \<Rightarrow> (\<lparr>res_status = 400, res_json = JsonError ''Phone number is required''\<rparr>, w)
           | Some raw \<Rightarrow>
               if raw = [] then
                 (\<lparr>res_status = 400, res_json = JsonError ''Phone number is required''\<rparr>, w)
               else
                 (let cleanNumber = filter isDigit raw
                  in if prefix ''0'' cleanNumber then
                       (\<lparr>res_status = 400,
                         res_json = JsonError ''Phone number cannot start with 0''\<rparr>, w)
                     else if length cleanNumber < 10 \<or> length cleanNumber > 15 then
                       (\<lparr>res_status = 400,
                         res_json = JsonError ''Phone number must be 10-15 digits''\<rparr>, w)
                     else
                       (case startPairing env now cleanNumber w of
                          (Inr (sessionId, pairingCode), w') \<Rightarrow>
                            (\<lparr>res_status = 200,
                              res_json = JsonPairing sessionId pairingCode cleanNumber\<rparr>, w')
                        | (Inl e, w') \<Rightarrow>
                            (\<lparr>res_status = 500,
                              res_json = JsonFailure
                                (if message e = [] then ''Failed to generate pairing code''
                                 else message e)\<rparr>,
                             w'\<lparr>console := console w' @ [LogApiError e]\<rparr>))))"

definition handler_session_status :: "request \<Rightarrow> world \<Rightarrow> response \<times> world" where
  "handler_session_status req w =
     (if req_method req \<noteq> ''GET'' then
        (\<lparr>res_status = 405, res_json = JsonError ''Method not allowed''\<rparr>, w)
      else case query_sessionId req of
             None \<Rightarrow> (\<lparr>res_status = 400, res_json = JsonError ''Session ID is required''\<rparr>, w)
           | Some sessionId \<Rightarrow>
               if sessionId = [] then
                 (\<lparr>res_status = 400, res_json = JsonError ''Session ID is required''\<rparr>, w)
               else
                 (case Map_get sessionId (activeSessions w) of
                    None \<Rightarrow> (\<lparr>res_status = 404, res_json = JsonError ''Session not found''\<rparr>, w)
                  | Some session \<Rightarrow>
                      (\<lparr>res_status = 200,
                        res_json = JsonStatus (status session) (phoneNumber session)
                                     (connectedAt session) (githubUrl session)\<rparr>, w)))"

fun list_connected :: "(string \<times> session) list \<Rightarrow> listing list" where
  "list_connected [] = []"
| "list_connected ((sessionId, session) # rest) =
     (if status session = connected
      then Listing sessionId (phoneNumber session) (connectedAt session)
             (connectedAt session) (githubUrl session) # list_connected rest
      else list_connected rest)"

definition handler_sessions :: "request \<Rightarrow> world \<Rightarrow> response \<times> world" where
  "handler_sessions req w =
     (if req_method req \<noteq> ''GET'' then
        (\<lparr>res_status = 405, res_json = JsonError ''Method not allowed''\<rparr>, w)
      else (\<lparr>res_status = 200, res_json = JsonSessions (list_connected (activeSessions w))\<rparr>, w))"

section \<open>Observations on a run\<close>

text \<open>The put requests among the recorded calls, in the order they were made.\<close>

fun put_requests :: "call list \<Rightarrow> put_request list" where
  "put_requests [] = []"
| "put_requests (CreateOrUpdateFileContents r # cs) = r # put_requests cs"
| "put_requests (c # cs) = put_requests cs"

text \<open>The location that \<open>uploadSessionToGithub\<close> returns for a parsed configuration.\<close>

definition github_url :: "string \<Rightarrow> string option \<Rightarrow> string \<Rightarrow> string" where
  "github_url owner repo phone =
     ''https://github.com/'' @ owner @ ''/'' @ show_opt repo @ ''/tree/main/sessions/'' @ phone"


section \<open>Concrete inputs\<close>

text \<open>
  A transport that issues the pairing code \<open>ABCD1234\<close> for a fresh account, a remote store
  configured by URL that accepts every put, and the state of a freshly started process.
\<close>

definition example_env :: env where
  "example_env =
     \<lparr>GITHUB_REPO_URL = Some ''https://github.com/acme/store'', loggedOut = 401,
      mkdirSync_error = (\<lambda>_. None), useMultiFileAuthState = (\<lambda>_. Inr False),
      makeWASocket = (\<lambda>p. Inr (Sock p)), requestPairingCode = (\<lambda>_ _. Inr ''ABCD1234''),
      getContent = (\<lambda>_ _ _. None), createOrUpdateFileContents = (\<lambda>_. None),
      base64 = (\<lambda>s. s)\<rparr>"

definition example_world :: world where
  "example_world = \<lparr>activeSessions = [], fs = (\<lambda>_. None), console = [], calls = []\<rparr>"

definition example_request :: "string \<Rightarrow> request" where
  "example_request m =
     \<lparr>req_method = m, body_phoneNumber = Some ''+234 814 082 5959'', query_sessionId = None\<rparr>"

text \<open>
  The state after one pairing request for \<open>2348140825959\<close> at time 17, once the transport
  has staged two credential files; and the same state after an Open event at time 20.
\<close>

definition example_id :: string where
  "example_id = ''session_2348140825959_17''"

definition example_dir :: string where
  "example_dir = ''/tmp/sessions/2348140825959''"

definition example_session :: session where
  "example_session =
     \<lparr>phoneNumber = ''2348140825959'', status = waiting, sock = Sock example_dir,
      saveCreds = SaveCreds example_dir, sessionPath = example_dir,
      connectedAt = None, githubUrl = None\<rparr>"

definition example_staged :: world where
  "example_staged =
     \<lparr>activeSessions = [(example_id, example_session)],
      fs = (\<lambda>p. if p = example_dir
                 then Some [(''creds.json'', File ''{}''), (''app-state.json'', File ''[]'')]
                 else None),
      console = [], calls = []\<rparr>"

definition example_connected :: world where
  "example_connected =
     example_staged\<lparr>activeSessions :=
       [(example_id, example_session\<lparr>status := connected, connectedAt := Some 20\<rparr>)]\<rparr>"

definition open_event :: update where
  "open_event = \<lparr>connection = Some Open, statusCode = None\<rparr>"

definition close_event :: "int option \<Rightarrow> update" where
  "close_event c = \<lparr>connection = Some Close, statusCode = c\<rparr>"

text \<open>A remote store that rejects the put of \<open>creds.json\<close> and accepts every other put.\<close>

definition example_env_put_fails :: env where
  "example_env_put_fails =
     example_env\<lparr>createOrUpdateFileContents :=
       (\<lambda>r. if put_path r = ''sessions/2348140825959/creds.json''
            then Some (Error ''Bad credentials'') else None)\<rparr>"

text \<open>
  A target repository that has neither the URL form nor the form \<open>owner/repo\<close>; the
  remote store rejects every put that names no repository.
\<close>

definition example_env_unparsable :: env where
  "example_env_unparsable =
     example_env\<lparr>GITHUB_REPO_URL := Some ''store'',
       createOrUpdateFileContents :=
         (\<lambda>r. if put_repo r = None then Some (Error ''Not Found'') else None)\<rparr>"

text \<open>
  A resumed account: the credentials are already registered, and the transport would
  reject a pairing-code request.
\<close>

definition example_env_resumed :: env where
  "example_env_resumed =
     example_env\<lparr>useMultiFileAuthState := (\<lambda>_. Inr True),
       requestPairingCode := (\<lambda>_ _. Inl (Error ''Connection Closed''))\<rparr>"

section \<open>Auxiliary facts\<close>

subsection \<open>The registry\<close>


lemma Map_get_set_same: "Map_get k (Map_set k v m) = Some v"
  by (induction m) auto

lemma Map_get_set_other: "k' \<noteq> k \<Longrightarrow> Map_get k' (Map_set k v m) = Map_get k' m"
  by (induction m) auto

lemma Map_set_keys: "Map_get k m = Some s \<Longrightarrow> map fst (Map_set k v m) = map fst m"
  by (induction m) (auto split: if_splits)

lemma Map_set_member:
  "distinct (map fst m) \<Longrightarrow> Map_get k m = Some s \<Longrightarrow> (k, v') \<in> set (Map_set k v m) \<Longrightarrow> v' = v"
  by (induction m) (auto split: if_splits simp: rev_image_eqI)

lemma Map_set_key_set: "set (map fst (Map_set k v m)) = insert k (set (map fst m))"
proof (induction m)
  case Nil
  show ?case by simp
next
  case (Cons p m)
  obtain k' v' where p: "p = (k', v')" by (cases p)
  show ?case
  proof (cases "k' = k")
    case True
    then show ?thesis using p by simp
  next
    case False
    then have "set (map fst (Map_set k v (p # m))) = insert k' (set (map fst (Map_set k v m)))"
      using p by simp
    then show ?thesis using Cons p by (simp add: insert_commute)
  qed
qed

lemma Map_set_distinct:
  "distinct (map fst m) \<Longrightarrow> distinct (map fst (Map_set k v m))"
proof (induction m)
  case Nil
  show ?case by simp
next
  case (Cons p m)
  obtain k' v' where p: "p = (k', v')" by (cases p)
  show ?case
  proof (cases "k' = k")
    case True
    then show ?thesis using Cons.prems p by simp
  next
    case False
    have "k' \<notin> set (map fst (Map_set k v m))"
      using Cons.prems p False by (simp only: Map_set_key_set) simp
    then show ?thesis using Cons p False by simp
  qed
qed

lemma list_connected_ids:
  "l \<in> set (list_connected m) \<Longrightarrow> \<exists>s. (listing_id l, s) \<in> set m \<and> status s = connected"
  by (induction m rule: list_connected.induct) (auto split: if_splits)

lemma upload_file_state:
  "activeSessions (snd (upload_file env owner repo folder phone dir entry w)) = activeSessions w"
  "fs (snd (upload_file env owner repo folder phone dir entry w)) = fs w"
  by (auto simp: upload_file_def Let_def split: fsentry.splits option.splits)

lemma upload_files_state:
  "activeSessions (snd (upload_files env owner repo folder phone dir files w)) = activeSessions w
   \<and> fs (snd (upload_files env owner repo folder phone dir files w)) = fs w"
proof (induction files arbitrary: w)
  case Nil
  show ?case by simp
next
  case (Cons entry files)
  obtain r w' where step: "upload_file env owner repo folder phone dir entry w = (r, w')"
    by (cases "upload_file env owner repo folder phone dir entry w")
  have "activeSessions w' = activeSessions w" "fs w' = fs w"
    using upload_file_state [of env owner repo folder phone dir entry w] step by simp_all
  then show ?case using Cons [of w'] step by (cases r) simp_all
qed

lemma uploadSessionToGithub_state:
  "activeSessions (snd (uploadSessionToGithub env phone dir w)) = activeSessions w
   \<and> fs (snd (uploadSessionToGithub env phone dir w)) = fs w"
proof (cases "parseGithubRepo (GITHUB_REPO_URL env)")
  case (Inl e)
  then show ?thesis by (simp add: uploadSessionToGithub_def)
next
  case (Inr p)
  obtain owner repo where p: "p = (owner, repo)" by (cases p)
  show ?thesis
  proof (cases "fs w dir")
    case None
    then show ?thesis using Inr p by (simp add: uploadSessionToGithub_def Let_def)
  next
    case (Some files)
    let ?w1 = "w\<lparr>calls := calls w @ [ReadDir dir]\<rparr>"
    obtain r w2 where up:
      "upload_files env owner repo (''sessions/'' @ phone) phone dir files ?w1 = (r, w2)"
      by (cases "upload_files env owner repo (''sessions/'' @ phone) phone dir files ?w1")
    have "activeSessions w2 = activeSessions w \<and> fs w2 = fs w"
      using upload_files_state [of env owner repo "''sessions/'' @ phone" phone dir files ?w1] up
      by simp
    then show ?thesis using Inr p Some up
      by (cases r) (simp_all add: uploadSessionToGithub_def Let_def)
  qed
qed

lemma open_step:
  assumes "Map_get sessionId (activeSessions w) = Some s" and "connection u = Some Open"
  shows "fst (onConnectionUpdate env sessionId phone dir now u w) = None"
    and "\<exists>s'. Map_get sessionId (activeSessions (snd (onConnectionUpdate env sessionId phone dir now u w))) = Some s'
          \<and> status s' = connected \<and> connectedAt s' = Some now"
proof -
  let ?s1 = "s\<lparr>status := connected, connectedAt := Some now\<rparr>"
  let ?w2 = "w\<lparr>console := console w @ [LogConnected phone],
               activeSessions := Map_set sessionId ?s1 (activeSessions w)\<rparr>"
  obtain r w3 where up: "uploadSessionToGithub env phone dir ?w2 = (r, w3)"
    by (cases "uploadSessionToGithub env phone dir ?w2")
  have reg: "activeSessions w3 = Map_set sessionId ?s1 (activeSessions w)"
    using uploadSessionToGithub_state [of env phone dir ?w2] up by simp
  show "fst (onConnectionUpdate env sessionId phone dir now u w) = None"
    using assms up by (cases r) (simp_all add: onConnectionUpdate_def Let_def)
  show "\<exists>s'. Map_get sessionId (activeSessions (snd (onConnectionUpdate env sessionId phone dir now u w))) = Some s'
          \<and> status s' = connected \<and> connectedAt s' = Some now"
    using assms up reg
    by (cases r) (simp_all add: onConnectionUpdate_def Let_def Map_get_set_same)
qed

text \<open>The keys of the registry stay distinct under session creation and under events.\<close>

lemma startPairing_distinct:
  "distinct (map fst (activeSessions w)) \<Longrightarrow>
   distinct (map fst (activeSessions (snd (startPairing env now phone w))))"
  by (auto simp: startPairing_def Let_def Map_set_distinct
      split: if_splits option.splits sum.splits)

lemma onConnectionUpdate_distinct:
  assumes "distinct (map fst (activeSessions w))"
  shows "distinct (map fst (activeSessions (snd (onConnectionUpdate env sessionId phone dir now u w))))"
proof (cases "Map_get sessionId (activeSessions w)")
  case None
  then show ?thesis using assms by (simp add: onConnectionUpdate_def Let_def)
next
  case (Some s)
  let ?s1 = "s\<lparr>status := connected, connectedAt := Some now\<rparr>"
  let ?w2 = "w\<lparr>console := console w @ [LogConnected phone],
               activeSessions := Map_set sessionId ?s1 (activeSessions w)\<rparr>"
  obtain r w3 where up: "uploadSessionToGithub env phone dir ?w2 = (r, w3)"
    by (cases "uploadSessionToGithub env phone dir ?w2")
  have reg: "activeSessions w3 = Map_set sessionId ?s1 (activeSessions w)"
    using uploadSessionToGithub_state [of env phone dir ?w2] up by simp
  show ?thesis using assms Some up reg
    by (cases r) (simp_all add: onConnectionUpdate_def Let_def Map_set_distinct)
qed

subsection \<open>The upload sequence\<close>

lemma put_requests_append: "put_requests (xs @ ys) = put_requests xs @ put_requests ys"
  by (induction xs rule: put_requests.induct) auto

lemma upload_file_cong:
  "calls w = calls w' \<Longrightarrow>
   fst (upload_file env owner repo folder phone dir entry w)
     = fst (upload_file env owner repo folder phone dir entry w')
   \<and> calls (snd (upload_file env owner repo folder phone dir entry w))
     = calls (snd (upload_file env owner repo folder phone dir entry w'))"
  by (auto simp: upload_file_def Let_def split: fsentry.splits option.splits)

lemma upload_files_cong:
  "calls w = calls w' \<Longrightarrow>
   fst (upload_files env owner repo folder phone dir files w)
     = fst (upload_files env owner repo folder phone dir files w')
   \<and> calls (snd (upload_files env owner repo folder phone dir files w))
     = calls (snd (upload_files env owner repo folder phone dir files w'))"
proof (induction files arbitrary: w w')
  case Nil
  then show ?case by simp
next
  case (Cons entry files)
  obtain r v where a: "upload_file env owner repo folder phone dir entry w = (r, v)"
    by (cases "upload_file env owner repo folder phone dir entry w")
  obtain r' v' where b: "upload_file env owner repo folder phone dir entry w' = (r', v')"
    by (cases "upload_file env owner repo folder phone dir entry w'")
  have same: "r = r'" "calls v = calls v'"
    using upload_file_cong [OF Cons.prems, of env owner repo folder phone dir entry] a b
    by simp_all
  show ?case using Cons.IH [OF same(2)] a b same by (cases r') simp_all
qed

lemma uploadSessionToGithub_cong:
  assumes "fs w = fs w'" and "calls w = calls w'"
  shows "fst (uploadSessionToGithub env phone dir w) = fst (uploadSessionToGithub env phone dir w')"
    and "calls (snd (uploadSessionToGithub env phone dir w))
       = calls (snd (uploadSessionToGithub env phone dir w'))"
proof -
  have both: "fst (uploadSessionToGithub env phone dir w) = fst (uploadSessionToGithub env phone dir w')
    \<and> calls (snd (uploadSessionToGithub env phone dir w))
       = calls (snd (uploadSessionToGithub env phone dir w'))"
  proof (cases "parseGithubRepo (GITHUB_REPO_URL env)")
    case (Inl e)
    then show ?thesis using assms by (simp add: uploadSessionToGithub_def)
  next
    case (Inr p)
    obtain owner repo where p: "p = (owner, repo)" by (cases p)
    show ?thesis
    proof (cases "fs w dir")
      case None
      then show ?thesis using Inr p assms by (simp add: uploadSessionToGithub_def Let_def)
    next
      case (Some files)
      let ?v = "w\<lparr>calls := calls w @ [ReadDir dir]\<rparr>"
      let ?v' = "w'\<lparr>calls := calls w' @ [ReadDir dir]\<rparr>"
      have c: "calls ?v = calls ?v'" using assms by simp
      obtain r x where a:
        "upload_files env owner repo (''sessions/'' @ phone) phone dir files ?v = (r, x)"
        by (cases "upload_files env owner repo (''sessions/'' @ phone) phone dir files ?v")
      obtain r' x' where b:
        "upload_files env owner repo (''sessions/'' @ phone) phone dir files ?v' = (r', x')"
        by (cases "upload_files env owner repo (''sessions/'' @ phone) phone dir files ?v'")
      have same: "r = r'" "calls x = calls x'"
        using upload_files_cong [OF c, of env owner repo "''sessions/'' @ phone" phone dir files]
          a b by simp_all
      have some': "fs w' dir = Some files" using Some assms by simp
      show ?thesis using Inr p Some some' a b same
        by (cases r') (simp_all add: uploadSessionToGithub_def Let_def)
    qed
  qed
  show "fst (uploadSessionToGithub env phone dir w) = fst (uploadSessionToGithub env phone dir w')"
    using both by simp
  show "calls (snd (uploadSessionToGithub env phone dir w))
       = calls (snd (uploadSessionToGithub env phone dir w'))"
    using both by simp
qed

lemma upload_file_readable:
  "snd entry \<noteq> SubDir \<Longrightarrow>
   fst (upload_file env owner repo folder phone dir entry w) = None
   \<and> map put_path (put_requests (calls (snd (upload_file env owner repo folder phone dir entry w))))
       = map put_path (put_requests (calls w)) @ [folder @ ''/'' @ fst entry]"
  by (cases "snd entry")
     (auto simp: upload_file_def Let_def put_requests_append split: option.splits)

lemma upload_files_readable:
  "\<forall>e\<in>set files. snd e \<noteq> SubDir \<Longrightarrow>
   fst (upload_files env owner repo folder phone dir files w) = None
   \<and> map put_path (put_requests (calls (snd (upload_files env owner repo folder phone dir files w))))
       = map put_path (put_requests (calls w)) @ map (\<lambda>e. folder @ ''/'' @ fst e) files"
proof (induction files arbitrary: w)
  case Nil
  then show ?case by simp
next
  case (Cons entry files)
  obtain r v where a: "upload_file env owner repo folder phone dir entry w = (r, v)"
    by (cases "upload_file env owner repo folder phone dir entry w")
  have e: "snd entry \<noteq> SubDir" using Cons.prems by simp
  have r: "r = None"
    and v: "map put_path (put_requests (calls v))
            = map put_path (put_requests (calls w)) @ [folder @ ''/'' @ fst entry]"
    using upload_file_readable [OF e, of env owner repo folder phone dir w] a by simp_all
  have rest: "\<forall>e\<in>set files. snd e \<noteq> SubDir" using Cons.prems by simp
  show ?case using Cons.IH [OF rest, of v] a r v by simp
qed

lemma upload_all_attempted:
  assumes cfg: "parseGithubRepo (GITHUB_REPO_URL env) = Inr (owner, repo)"
    and dir: "fs w dir = Some files"
    and readable: "\<forall>e\<in>set files. snd e \<noteq> SubDir"
  shows "fst (uploadSessionToGithub env phone dir w) = Inr (github_url owner repo phone)"
    and "map put_path (put_requests (calls (snd (uploadSessionToGithub env phone dir w))))
         = map put_path (put_requests (calls w))
           @ map (\<lambda>e. ''sessions/'' @ phone @ ''/'' @ fst e) files"
proof -
  let ?v = "w\<lparr>calls := calls w @ [ReadDir dir]\<rparr>"
  obtain r x where a:
    "upload_files env owner repo (''sessions/'' @ phone) phone dir files ?v = (r, x)"
    by (cases "upload_files env owner repo (''sessions/'' @ phone) phone dir files ?v")
  have r: "r = None"
    and x: "map put_path (put_requests (calls x))
            = map put_path (put_requests (calls ?v))
              @ map (\<lambda>e. (''sessions/'' @ phone) @ ''/'' @ fst e) files"
    using upload_files_readable [OF readable, of env owner repo "''sessions/'' @ phone" phone dir ?v] a
    by simp_all
  show "fst (uploadSessionToGithub env phone dir w) = Inr (github_url owner repo phone)"
    using cfg dir a r by (simp add: uploadSessionToGithub_def Let_def github_url_def)
  show "map put_path (put_requests (calls (snd (uploadSessionToGithub env phone dir w))))
         = map put_path (put_requests (calls w))
           @ map (\<lambda>e. ''sessions/'' @ phone @ ''/'' @ fst e) files"
    using cfg dir a r x by (simp add: uploadSessionToGithub_def Let_def put_requests_append)
qed

lemma open_step_upload:
  assumes present: "Map_get sessionId (activeSessions w) = Some s"
    and ev: "connection u = Some Open"
  shows "calls (snd (onConnectionUpdate env sessionId phone dir now u w))
         = calls (snd (uploadSessionToGithub env phone dir w))"
    and "fst (uploadSessionToGithub env phone dir w) = Inr url \<Longrightarrow>
         Map_get sessionId (activeSessions (snd (onConnectionUpdate env sessionId phone dir now u w)))
         = Some (s\<lparr>status := connected, connectedAt := Some now, githubUrl := Some url\<rparr>)"
    and "fst (uploadSessionToGithub env phone dir w) = Inl e \<Longrightarrow>
         Map_get sessionId (activeSessions (snd (onConnectionUpdate env sessionId phone dir now u w)))
         = Some (s\<lparr>status := connected, connectedAt := Some now\<rparr>)
         \<and> LogGithubUploadFailed e \<in> set (console (snd (onConnectionUpdate env sessionId phone dir now u w)))"
proof -
  let ?s1 = "s\<lparr>status := connected, connectedAt := Some now\<rparr>"
  let ?w2 = "w\<lparr>console := console w @ [LogConnected phone],
               activeSessions := Map_set sessionId ?s1 (activeSessions w)\<rparr>"
  obtain r w3 where up: "uploadSessionToGithub env phone dir ?w2 = (r, w3)"
    by (cases "uploadSessionToGithub env phone dir ?w2")
  have reg: "activeSessions w3 = Map_set sessionId ?s1 (activeSessions w)"
    using uploadSessionToGithub_state [of env phone dir ?w2] up by simp
  have r: "r = fst (uploadSessionToGithub env phone dir w)"
    and c: "calls w3 = calls (snd (uploadSessionToGithub env phone dir w))"
    using uploadSessionToGithub_cong [of ?w2 w env phone dir] up by simp_all
  show "calls (snd (onConnectionUpdate env sessionId phone dir now u w))
         = calls (snd (uploadSessionToGithub env phone dir w))"
    using present ev up c by (cases r) (simp_all add: onConnectionUpdate_def Let_def)
  show "fst (uploadSessionToGithub env phone dir w) = Inr url \<Longrightarrow>
         Map_get sessionId (activeSessions (snd (onConnectionUpdate env sessionId phone dir now u w)))
         = Some (s\<lparr>status := connected, connectedAt := Some now, githubUrl := Some url\<rparr>)"
    using present ev up r reg
    by (simp add: onConnectionUpdate_def Let_def Map_get_set_same)
  show "fst (uploadSessionToGithub env phone dir w) = Inl e \<Longrightarrow>
         Map_get sessionId (activeSessions (snd (onConnectionUpdate env sessionId phone dir now u w)))
         = Some (s\<lparr>status := connected, connectedAt := Some now\<rparr>)
         \<and> LogGithubUploadFailed e \<in> set (console (snd (onConnectionUpdate env sessionId phone dir now u w)))"
    using present ev up r reg
    by (simp add: onConnectionUpdate_def Let_def Map_get_set_same)
qed

lemma startPairing_store_indep:
  "startPairing
     (env\<lparr>GITHUB_REPO_URL := cfg, getContent := g, createOrUpdateFileContents := c, base64 := b\<rparr>)
     now phone w = startPairing env now phone w"
  by (simp add: startPairing_def cong: sum.case_cong option.case_cong if_cong)

subsection \<open>Pairing codes and session creation\<close>

lemma join_nonempty: "g \<noteq> [] \<Longrightarrow> join sep (g # gs) \<noteq> []"
  by (cases gs) auto

lemma match_groups_nonempty: "g \<in> set (match_groups s) \<Longrightarrow> 1 \<le> length g \<and> length g \<le> 4"
proof (induction s rule: match_groups.induct)
  case (1 s)
  show ?case
  proof (cases "s = []")
    case True
    then show ?thesis using "1.prems" by (simp add: match_groups.simps)
  next
    case False
    let ?g = "take 4 (takeWhile (\<lambda>c. \<not> isLineTerminator c) s)"
    show ?thesis
    proof (cases "?g = []")
      case True
      then have "match_groups s = match_groups (tl s)"
        using False by (subst match_groups.simps) (simp add: Let_def)
      then show ?thesis using "1.IH"(1) [OF False refl True] "1.prems" by simp
    next
      case g: False
      then have eq: "match_groups s = ?g # match_groups (drop (length ?g) s)"
        using False by (subst match_groups.simps) (simp add: Let_def)
      have "length ?g \<le> 4" by simp
      moreover have "1 \<le> length ?g" using g by (simp add: Suc_le_eq)
      ultimately have "1 \<le> length ?g \<and> length ?g \<le> 4" by simp
      then show ?thesis using "1.IH"(2) [OF False refl g] "1.prems" eq by auto
    qed
  qed
qed

lemma match_groups_plain:
  "\<forall>c\<in>set s. \<not> isLineTerminator c \<Longrightarrow>
   concat (match_groups s) = s
   \<and> (\<forall>i. Suc i < length (match_groups s) \<longrightarrow> length (match_groups s ! i) = 4)"
proof (induction s rule: match_groups.induct)
  case (1 s)
  show ?case
  proof (cases "s = []")
    case True
    then show ?thesis by (simp add: match_groups.simps)
  next
    case False
    have tw: "takeWhile (\<lambda>c. \<not> isLineTerminator c) s = s"
      using "1.prems" by simp
    let ?g = "take 4 s"
    let ?h = "take 4 (takeWhile (\<lambda>c. \<not> isLineTerminator c) s)"
    have g: "?g \<noteq> []" using False by (cases s) auto
    have unf: "match_groups s =
        (if ?h = [] then match_groups (tl s) else ?h # match_groups (drop (length ?h) s))"
      using False by (subst match_groups.simps) (simp add: Let_def)
    have hg: "?h = ?g" by (simp only: tw)
    have eq: "match_groups s = ?g # match_groups (drop (length ?g) s)"
      using unf [unfolded hg] g by simp
    have rest: "\<forall>c\<in>set (drop (length ?g) s). \<not> isLineTerminator c"
      using "1.prems" by (meson in_set_dropD)
    have g': "?h \<noteq> []" using g hg by simp
    have IH: "concat (match_groups (drop (length ?g) s)) = drop (length ?g) s
        \<and> (\<forall>i. Suc i < length (match_groups (drop (length ?g) s))
              \<longrightarrow> length (match_groups (drop (length ?g) s) ! i) = 4)"
      using "1.IH"(2) [OF False refl g', unfolded hg] rest by blast
    have c: "concat (match_groups s) = s"
      using eq IH by (simp add: min_def)
    have l: "\<forall>i. Suc i < length (match_groups s) \<longrightarrow> length (match_groups s ! i) = 4"
    proof (intro allI impI)
      fix i assume i: "Suc i < length (match_groups s)"
      show "length (match_groups s ! i) = 4"
      proof (cases i)
        case 0
        then have "match_groups (drop (length ?g) s) \<noteq> []" using i eq by auto
        then have "drop (length ?g) s \<noteq> []" by (auto simp: match_groups.simps)
        then have "4 < length s" by (simp add: min_def split: if_splits)
        then show ?thesis using 0 eq by simp
      next
        case (Suc j)
        then show ?thesis using i eq IH by simp
      qed
    qed
    show ?thesis using c l by blast
  qed
qed

lemma formatPairingCode_plain:
  assumes "\<forall>c\<in>set code. \<not> isLineTerminator c"
  shows "formatPairingCode code = join ''-'' (match_groups code)"
proof (cases "match_groups code")
  case Nil
  then have "code = []" using match_groups_plain [OF assms] by auto
  then show ?thesis using Nil by (simp add: formatPairingCode_def)
next
  case (Cons g gs)
  then have "g \<noteq> []" using match_groups_nonempty [of g code] by auto
  then show ?thesis using Cons join_nonempty [of g "''-''" gs]
    by (simp add: formatPairingCode_def)
qed

lemma new_sessionPath_inj: "(new_sessionPath p1 = new_sessionPath p2) = (p1 = p2)"
  by (simp add: new_sessionPath_def path_join_def)

lemma startPairing_success:
  assumes "fst (startPairing env now phone w) = Inr (sid, pc)"
  shows "sid = new_sessionId phone now"
    and "\<exists>s. Map_get sid (activeSessions (snd (startPairing env now phone w))) = Some s
          \<and> phoneNumber s = phone \<and> status s = waiting
          \<and> sessionPath s = new_sessionPath phone"
  using assms
  by (auto simp: startPairing_def Let_def Map_get_set_same
      split: if_splits option.splits sum.splits)


subsection \<open>The concrete inputs, evaluated\<close>

lemmas upload_defs =
  uploadSessionToGithub_def parseGithubRepo_def match_github_at_def upload_file_def
  path_join_def show_opt_def github_url_def Let_def

lemma split_nonempty: "split c s \<noteq> []"
  by (induction s) auto

lemma example_id_eq: "new_sessionId ''2348140825959'' 17 = example_id"
  by (simp add: new_sessionId_def example_id_def string_of_nat.simps digit_char_def)

lemma example_dir_eq: "new_sessionPath ''2348140825959'' = example_dir"
  by (simp add: new_sessionPath_def path_join_def example_dir_def)


lemma example_code: "formatPairingCode ''ABCD1234'' = ''ABCD-1234''"
  by (simp add: formatPairingCode_def match_groups.simps isLineTerminator_def)

lemma example_groups: "match_groups ''ABCD1234'' = [''ABCD'', ''1234'']"
  by (simp add: match_groups.simps isLineTerminator_def)

section \<open>Session creation: errors\<close>




section \<open>Connection events\<close>

text \<open>
  C2 as stated fails. A Close event whose status code is 428, not the logged-out code 401,
  reaches a connected session: the status is still \<open>connected\<close> afterwards, not
  \<open>disconnected\<close>.
\<close>

theorem retryable_close_keeps_status:
  "statusCode (close_event (Some 428)) \<noteq> Some (loggedOut example_env)
   \<and> map_option status (Map_get example_id (activeSessions (snd
      (onConnectionUpdate example_env example_id ''2348140825959'' example_dir 30
         (close_event (Some 428)) example_connected)))) = Some connected
   \<and> map_option status (Map_get example_id (activeSessions (snd
      (onConnectionUpdate example_env example_id ''2348140825959'' example_dir 30
         (close_event (Some 428)) example_connected)))) \<noteq> Some disconnected"
  by (simp add: onConnectionUpdate_def close_event_def example_env_def example_connected_def
      example_staged_def example_session_def)

text \<open>
  C2, amended. For every Close event whose cause is not an explicit logout, the event
  handler changes nothing: the Session Record keeps the status it had, and the local
  staging directory, like the rest of the state, is left intact.
\<close>

theorem retryable_close_changes_nothing:
  "connection u = Some Close \<Longrightarrow> statusCode u \<noteq> Some (loggedOut env) \<Longrightarrow>
   onConnectionUpdate env sessionId phone dir now u w = (None, w)"
  by (simp add: onConnectionUpdate_def)

theorem retryable_close_changes_nothing_witness:
  "connection (close_event None) = Some Close
   \<and> statusCode (close_event None) \<noteq> Some (loggedOut example_env)
   \<and> onConnectionUpdate example_env example_id ''2348140825959'' example_dir 30
        (close_event None) example_staged = (None, example_staged)"
proof -
  have c: "connection (close_event None) = Some Close" by (simp add: close_event_def)
  have n: "statusCode (close_event None) \<noteq> Some (loggedOut example_env)"
    by (simp add: close_event_def)
  show ?thesis
    using retryable_close_changes_nothing
      [OF c n, of example_id "''2348140825959''" example_dir 30 example_staged] c n
    by simp
qed

text \<open>
  C3 as stated fails. Two Open events reach the same session, at times 20 and 30: after
  the first \<open>connectedAt\<close> is 20, after the second it is 30.
\<close>

theorem second_open_overwrites_connectedAt:
  "map_option connectedAt (Map_get example_id (activeSessions (snd
      (onConnectionUpdate example_env example_id ''2348140825959'' example_dir 20
         open_event example_staged)))) = Some (Some 20)
   \<and> map_option connectedAt (Map_get example_id (activeSessions (snd
      (onConnectionUpdate example_env example_id ''2348140825959'' example_dir 30 open_event
        (snd (onConnectionUpdate example_env example_id ''2348140825959'' example_dir 20
           open_event example_staged)))))) = Some (Some 30)
   \<and> map_option connectedAt (Map_get example_id (activeSessions (snd
      (onConnectionUpdate example_env example_id ''2348140825959'' example_dir 30 open_event
        (snd (onConnectionUpdate example_env example_id ''2348140825959'' example_dir 20
           open_event example_staged))))))
     \<noteq> map_option connectedAt (Map_get example_id (activeSessions (snd
      (onConnectionUpdate example_env example_id ''2348140825959'' example_dir 20
         open_event example_staged))))"
  by (simp add: onConnectionUpdate_def upload_defs open_event_def example_env_def
      example_staged_def example_session_def example_id_def example_dir_def)

text \<open>
  C3, amended. For every session in the registry, every Open event sets the status to
  \<open>connected\<close> and sets \<open>connectedAt\<close> to the time of that event: the first Open event
  sets it, and a subsequent Open event for the same session overwrites it with its own
  time.
\<close>

theorem open_sets_connectedAt_every_time:
  assumes present: "Map_get sessionId (activeSessions w) = Some s"
    and ev: "connection u = Some Open"
    and w1: "w1 = snd (onConnectionUpdate env sessionId phone dir t1 u w)"
    and w2: "w2 = snd (onConnectionUpdate env sessionId phone dir t2 u w1)"
  shows "map_option status (Map_get sessionId (activeSessions w1)) = Some connected
    \<and> map_option connectedAt (Map_get sessionId (activeSessions w1)) = Some (Some t1)
    \<and> map_option status (Map_get sessionId (activeSessions w2)) = Some connected
    \<and> map_option connectedAt (Map_get sessionId (activeSessions w2)) = Some (Some t2)"
proof -
  obtain s1 where s1: "Map_get sessionId (activeSessions w1) = Some s1"
      "status s1 = connected" "connectedAt s1 = Some t1"
    using open_step(2) [OF present ev, of env phone dir t1] w1 by blast
  obtain s2 where s2: "Map_get sessionId (activeSessions w2) = Some s2"
      "status s2 = connected" "connectedAt s2 = Some t2"
    using open_step(2) [OF s1(1) ev, of env phone dir t2] w2 by blast
  show ?thesis using s1 s2 by simp
qed

theorem open_sets_connectedAt_every_time_witness:
  "Map_get example_id (activeSessions example_staged) = Some example_session
   \<and> connection open_event = Some Open
   \<and> map_option status (Map_get example_id (activeSessions (snd
      (onConnectionUpdate example_env example_id ''2348140825959'' example_dir 20
         open_event example_staged)))) = Some connected
   \<and> map_option connectedAt (Map_get example_id (activeSessions (snd
      (onConnectionUpdate example_env example_id ''2348140825959'' example_dir 30 open_event
        (snd (onConnectionUpdate example_env example_id ''2348140825959'' example_dir 20
           open_event example_staged)))))) = Some (Some 30)"
proof -
  have present: "Map_get example_id (activeSessions example_staged) = Some example_session"
    by (simp add: example_staged_def)
  have ev: "connection open_event = Some Open" by (simp add: open_event_def)
  show ?thesis
    using open_sets_connectedAt_every_time
      [OF present ev refl refl, of example_env "''2348140825959''" example_dir 20 30]
      present ev
    by simp
qed

section \<open>Staging paths\<close>

text \<open>
  C4 as stated fails. Two pairing requests for the account \<open>2348140825959\<close>, at times 17
  and 18, produce two Session Records with different ids and the same staging path: the
  path is built from the account identifier alone.
\<close>

theorem same_account_same_staging_path:
  "''session_2348140825959_17'' \<noteq> ''session_2348140825959_18''
   \<and> new_sessionId ''2348140825959'' 17 = ''session_2348140825959_17''
   \<and> new_sessionId ''2348140825959'' 18 = ''session_2348140825959_18''
   \<and> map_option sessionPath (Map_get ''session_2348140825959_17'' (activeSessions (snd
      (startPairing example_env 18 ''2348140825959''
        (snd (startPairing example_env 17 ''2348140825959'' example_world))))))
     = Some ''/tmp/sessions/2348140825959''
   \<and> map_option sessionPath (Map_get ''session_2348140825959_18'' (activeSessions (snd
      (startPairing example_env 18 ''2348140825959''
        (snd (startPairing example_env 17 ''2348140825959'' example_world))))))
     = Some ''/tmp/sessions/2348140825959''"
  by (simp add: startPairing_def example_env_def example_world_def new_sessionId_def
      new_sessionPath_def path_join_def Let_def string_of_nat.simps digit_char_def)

text \<open>
  C4, amended. The staging path of a Session Record is derived from the accountIdentifier
  alone: the record that a successful creation stores has the path
  \<open>/tmp/sessions/<accountIdentifier>\<close>, so the staging paths of two records differ exactly
  when their accountIdentifiers differ, and two pairing attempts for the same
  accountIdentifier share one staging path.
\<close>

theorem staging_path_keyed_by_account:
  "((new_sessionPath p1 = new_sessionPath p2) = (p1 = p2))
   \<and> (fst (startPairing env now p1 w) = Inr (sid, pc) \<longrightarrow>
        map_option sessionPath (Map_get sid (activeSessions (snd (startPairing env now p1 w))))
          = Some (new_sessionPath p1)
        \<and> map_option phoneNumber (Map_get sid (activeSessions (snd (startPairing env now p1 w))))
          = Some p1)"
proof -
  have "fst (startPairing env now p1 w) = Inr (sid, pc) \<Longrightarrow>
        map_option sessionPath (Map_get sid (activeSessions (snd (startPairing env now p1 w))))
          = Some (new_sessionPath p1)
        \<and> map_option phoneNumber (Map_get sid (activeSessions (snd (startPairing env now p1 w))))
          = Some p1"
    using startPairing_success(2) [of env now p1 w sid pc] by auto
  then show ?thesis using new_sessionPath_inj [of p1 p2] by blast
qed

theorem staging_path_keyed_by_account_witness:
  "fst (startPairing example_env 17 ''2348140825959'' example_world)
     = Inr (example_id, Some ''ABCD-1234'')
   \<and> map_option sessionPath (Map_get example_id (activeSessions (snd
        (startPairing example_env 17 ''2348140825959'' example_world)))) = Some example_dir
   \<and> (new_sessionPath ''2348140825959'' = new_sessionPath ''2348140825960'') = False"
proof -
  have ok: "fst (startPairing example_env 17 ''2348140825959'' example_world)
     = Inr (example_id, Some ''ABCD-1234'')"
    by (simp add: startPairing_def example_env_def example_world_def Let_def
        example_id_eq example_code)
  show ?thesis
    using staging_path_keyed_by_account
      [of "''2348140825959''" "''2348140825960''" example_env 17 example_world example_id
          "Some ''ABCD-1234''"] ok
    by (simp add: example_dir_eq)
qed

section \<open>Credential upload\<close>

text \<open>
  C5 as stated fails. With the target repository set to \<open>store\<close>, which has neither the
  URL form nor the form \<open>owner/repo\<close>, the configuration is parsed to the owner \<open>store\<close>
  and no repository. The upload sequence does not fail: it reads the staged files,
  attempts a put for each of them (the remote store rejects them), and returns a location.
\<close>

theorem unparsable_repo_is_not_rejected:
  "parseGithubRepo (GITHUB_REPO_URL example_env_unparsable) = Inr (''store'', None)
   \<and> fst (uploadSessionToGithub example_env_unparsable
          ''2348140825959'' example_dir example_staged)
     = Inr ''https://github.com/store/undefined/tree/main/sessions/2348140825959''
   \<and> ReadFile ''/tmp/sessions/2348140825959/creds.json''
       \<in> set (calls (snd (uploadSessionToGithub example_env_unparsable
            ''2348140825959'' example_dir example_staged)))
   \<and> map put_path (put_requests (calls (snd (uploadSessionToGithub example_env_unparsable
            ''2348140825959'' example_dir example_staged))))
     = [''sessions/2348140825959/creds.json'', ''sessions/2348140825959/app-state.json'']"
  by (simp add: upload_defs example_env_unparsable_def example_env_def example_staged_def
      example_dir_def)

text \<open>
  C5, amended. For every invocation of the credential-upload sequence with the target
  repository absent (the variable unset or empty), the sequence fails with the error
  \<open>GITHUB_REPO_URL not set\<close> before any file is read or any put call is attempted: the
  only effect is the logged error.
\<close>

theorem absent_repo_fails_fast:
  "GITHUB_REPO_URL env = None \<or> GITHUB_REPO_URL env = Some [] \<Longrightarrow>
   fst (uploadSessionToGithub env phone dir w) = Inl (Error ''GITHUB_REPO_URL not set'')
   \<and> calls (snd (uploadSessionToGithub env phone dir w)) = calls w
   \<and> snd (uploadSessionToGithub env phone dir w)
       = w\<lparr>console := console w
             @ [LogErrorUploadingToGithub (Error ''GITHUB_REPO_URL not set'')]\<rparr>"
  by (auto simp: uploadSessionToGithub_def parseGithubRepo_def)

theorem absent_repo_fails_fast_witness:
  "GITHUB_REPO_URL (example_env\<lparr>GITHUB_REPO_URL := None\<rparr>) = None
   \<and> fst (uploadSessionToGithub (example_env\<lparr>GITHUB_REPO_URL := None\<rparr>)
            ''2348140825959'' example_dir example_staged)
       = Inl (Error ''GITHUB_REPO_URL not set'')
   \<and> calls (snd (uploadSessionToGithub (example_env\<lparr>GITHUB_REPO_URL := None\<rparr>)
            ''2348140825959'' example_dir example_staged)) = []"
proof -
  have a: "GITHUB_REPO_URL (example_env\<lparr>GITHUB_REPO_URL := None\<rparr>) = None
           \<or> GITHUB_REPO_URL (example_env\<lparr>GITHUB_REPO_URL := None\<rparr>) = Some []"
    by simp
  show ?thesis
    using absent_repo_fails_fast [OF a, of "''2348140825959''" example_dir example_staged]
    by (simp add: example_staged_def)
qed

text \<open>
  C7. The upload sequence runs on a staging directory with N files, for a configured
  target repository, when an Open event reaches a session of the registry. Whatever
  the outcome of each put call, success or failure, a put is attempted for every one of
  the N files, in the order of the directory listing, at \<open>sessions/<account>/<file>\<close>;
  the sequence returns the remote location, and the handler stores it on the Session
  Record as \<open>githubUrl\<close>.
\<close>

theorem put_failure_does_not_abort_upload:
  assumes cfg: "parseGithubRepo (GITHUB_REPO_URL env) = Inr (owner, repo)"
    and dir: "fs w dir = Some files"
    and readable: "\<forall>e\<in>set files. snd e \<noteq> SubDir"
    and present: "Map_get sessionId (activeSessions w) = Some s"
    and ev: "connection u = Some Open"
    and w': "w' = snd (onConnectionUpdate env sessionId phone dir now u w)"
  shows "fst (uploadSessionToGithub env phone dir w) = Inr (github_url owner repo phone)
    \<and> map put_path (put_requests (calls w'))
        = map put_path (put_requests (calls w))
          @ map (\<lambda>e. ''sessions/'' @ phone @ ''/'' @ fst e) files
    \<and> map_option githubUrl (Map_get sessionId (activeSessions w'))
        = Some (Some (github_url owner repo phone))"
proof -
  have url: "fst (uploadSessionToGithub env phone dir w) = Inr (github_url owner repo phone)"
    using upload_all_attempted(1) [OF cfg dir readable] .
  have puts: "map put_path (put_requests (calls w'))
        = map put_path (put_requests (calls w))
          @ map (\<lambda>e. ''sessions/'' @ phone @ ''/'' @ fst e) files"
    using upload_all_attempted(2) [OF cfg dir readable, of phone]
      open_step_upload(1) [OF present ev, of env phone dir now] w'
    by simp
  have stored: "map_option githubUrl (Map_get sessionId (activeSessions w'))
        = Some (Some (github_url owner repo phone))"
    using open_step_upload(2) [OF present ev url, of now] w' by simp
  show ?thesis using url puts stored by blast
qed

theorem put_failure_does_not_abort_upload_witness:
  "createOrUpdateFileContents example_env_put_fails
      \<lparr>put_owner = ''acme'', put_repo = Some ''store'',
       put_path = ''sessions/2348140825959/creds.json'',
       put_message = ''Update session file for 2348140825959'',
       put_content = ''{}'', put_sha = None\<rparr> = Some (Error ''Bad credentials'')
   \<and> map put_path (put_requests (calls (snd
        (onConnectionUpdate example_env_put_fails example_id ''2348140825959'' example_dir 20
           open_event example_staged))))
       = [''sessions/2348140825959/creds.json'', ''sessions/2348140825959/app-state.json'']
   \<and> map_option githubUrl (Map_get example_id (activeSessions (snd
        (onConnectionUpdate example_env_put_fails example_id ''2348140825959'' example_dir 20
           open_event example_staged))))
       = Some (Some ''https://github.com/acme/store/tree/main/sessions/2348140825959'')"
proof -
  have cfg: "parseGithubRepo (GITHUB_REPO_URL example_env_put_fails)
               = Inr (''acme'', Some ''store'')"
    by (simp add: parseGithubRepo_def match_github_at_def example_env_put_fails_def
        example_env_def)
  have dir: "fs example_staged example_dir
               = Some [(''creds.json'', File ''{}''), (''app-state.json'', File ''[]'')]"
    by (simp add: example_staged_def)
  have readable:
    "\<forall>e\<in>set [(''creds.json'', File ''{}''), (''app-state.json'', File ''[]'')].
       snd e \<noteq> SubDir"
    by simp
  have present: "Map_get example_id (activeSessions example_staged) = Some example_session"
    by (simp add: example_staged_def)
  have ev: "connection open_event = Some Open" by (simp add: open_event_def)
  have rejected: "createOrUpdateFileContents example_env_put_fails
      \<lparr>put_owner = ''acme'', put_repo = Some ''store'',
       put_path = ''sessions/2348140825959/creds.json'',
       put_message = ''Update session file for 2348140825959'',
       put_content = ''{}'', put_sha = None\<rparr> = Some (Error ''Bad credentials'')"
    by (simp add: example_env_put_fails_def)
  show ?thesis
    using put_failure_does_not_abort_upload
      [OF cfg dir readable present ev refl, of "''2348140825959''" 20] rejected
    by (simp add: example_staged_def github_url_def show_opt_def)
qed

text \<open>
  C8. An Open event reaches a session of the registry. Whatever the upload sequence
  does, a failure of the whole sequence or the failure of single puts, the listener
  returns without raising, and the status of the session is \<open>connected\<close> afterwards. When
  the sequence fails with an error, the record is the one the Open event wrote (status and
  \<open>connectedAt\<close>), and the error is on the console. The response to the HTTP caller is the
  value of the creation handler, which is the same for every configuration and every
  behaviour of the remote store.
\<close>

theorem upload_failure_keeps_connected:
  assumes present: "Map_get sessionId (activeSessions w) = Some s"
    and ev: "connection u = Some Open"
    and w': "w' = snd (onConnectionUpdate env sessionId phone dir now u w)"
  shows "fst (onConnectionUpdate env sessionId phone dir now u w) = None
    \<and> map_option status (Map_get sessionId (activeSessions w')) = Some connected
    \<and> (\<forall>e. fst (uploadSessionToGithub env phone dir w) = Inl e \<longrightarrow>
          Map_get sessionId (activeSessions w')
            = Some (s\<lparr>status := connected, connectedAt := Some now\<rparr>)
          \<and> LogGithubUploadFailed e \<in> set (console w'))
    \<and> handler_request_pairing
         (env\<lparr>GITHUB_REPO_URL := cfg, getContent := g, createOrUpdateFileContents := c,
              base64 := b\<rparr>) t req v
       = handler_request_pairing env t req v"
proof -
  have quiet: "fst (onConnectionUpdate env sessionId phone dir now u w) = None"
    using open_step(1) [OF present ev] .
  have st: "map_option status (Map_get sessionId (activeSessions w')) = Some connected"
    using open_step(2) [OF present ev, of env phone dir now] w' by auto
  have failed: "\<forall>e. fst (uploadSessionToGithub env phone dir w) = Inl e \<longrightarrow>
          Map_get sessionId (activeSessions w')
            = Some (s\<lparr>status := connected, connectedAt := Some now\<rparr>)
          \<and> LogGithubUploadFailed e \<in> set (console w')"
    using open_step_upload(3) [OF present ev, of env phone dir _ now] w' by blast
  have response: "handler_request_pairing
         (env\<lparr>GITHUB_REPO_URL := cfg, getContent := g, createOrUpdateFileContents := c,
              base64 := b\<rparr>) t req v
       = handler_request_pairing env t req v"
    by (simp only: handler_request_pairing_def startPairing_store_indep)
  show ?thesis using quiet st failed response by blast
qed

theorem upload_failure_keeps_connected_witness:
  "fst (uploadSessionToGithub (example_env\<lparr>GITHUB_REPO_URL := None\<rparr>) ''2348140825959''
          example_dir example_staged) = Inl (Error ''GITHUB_REPO_URL not set'')
   \<and> fst (onConnectionUpdate (example_env\<lparr>GITHUB_REPO_URL := None\<rparr>) example_id
            ''2348140825959'' example_dir 20 open_event example_staged) = None
   \<and> map_option status (Map_get example_id (activeSessions (snd
        (onConnectionUpdate (example_env\<lparr>GITHUB_REPO_URL := None\<rparr>) example_id
           ''2348140825959'' example_dir 20 open_event example_staged)))) = Some connected
   \<and> LogGithubUploadFailed (Error ''GITHUB_REPO_URL not set'')
       \<in> set (console (snd
        (onConnectionUpdate (example_env\<lparr>GITHUB_REPO_URL := None\<rparr>) example_id
           ''2348140825959'' example_dir 20 open_event example_staged)))"
proof -
  have present: "Map_get example_id (activeSessions example_staged) = Some example_session"
    by (simp add: example_staged_def)
  have ev: "connection open_event = Some Open" by (simp add: open_event_def)
  have failed: "fst (uploadSessionToGithub (example_env\<lparr>GITHUB_REPO_URL := None\<rparr>)
          ''2348140825959'' example_dir example_staged) = Inl (Error ''GITHUB_REPO_URL not set'')"
    by (simp add: uploadSessionToGithub_def parseGithubRepo_def)
  show ?thesis
    using upload_failure_keeps_connected
      [OF present ev refl, of "example_env\<lparr>GITHUB_REPO_URL := None\<rparr>" "''2348140825959''"
          example_dir 20] failed
    by simp
qed

section \<open>Logout\<close>

text \<open>
  C6. A Close event with the logout cause reaches a session of the registry (a connected
  one in particular), in a registry whose keys are distinct, as the keys of a Map are.
  The listener returns without raising; afterwards the status of the Session Record is
  \<open>disconnected\<close> and its other fields are as before, the local staging directory no
  longer exists, the listing of connected sessions has no entry with the session's id, and
  the status endpoint answers a GET for the id with 200 and the status \<open>disconnected\<close>.
\<close>

theorem logout_close_tears_down:
  assumes present: "Map_get sessionId (activeSessions w) = Some s"
    and wf: "distinct (map fst (activeSessions w))"
    and ev: "connection u = Some Close" "statusCode u = Some (loggedOut env)"
    and sid: "sessionId \<noteq> []"
    and w': "w' = snd (onConnectionUpdate env sessionId phone dir now u w)"
  shows "fst (onConnectionUpdate env sessionId phone dir now u w) = None
    \<and> Map_get sessionId (activeSessions w') = Some (s\<lparr>status := disconnected\<rparr>)
    \<and> fs w' dir = None
    \<and> sessionId \<notin> listing_id ` set (list_connected (activeSessions w'))
    \<and> handler_sessions \<lparr>req_method = ''GET'', body_phoneNumber = b, query_sessionId = q\<rparr> w'
       = (\<lparr>res_status = 200, res_json = JsonSessions (list_connected (activeSessions w'))\<rparr>, w')
    \<and> handler_session_status
         \<lparr>req_method = ''GET'', body_phoneNumber = b, query_sessionId = Some sessionId\<rparr> w' =
       (\<lparr>res_status = 200,
         res_json = JsonStatus disconnected (phoneNumber s) (connectedAt s) (githubUrl s)\<rparr>, w')"
proof -
  let ?m = "Map_set sessionId (s\<lparr>status := disconnected\<rparr>) (activeSessions w)"
  have res: "fst (onConnectionUpdate env sessionId phone dir now u w) = None"
    using present ev by (simp add: onConnectionUpdate_def Let_def)
  have reg: "activeSessions w' = ?m"
    using present ev w' by (simp add: onConnectionUpdate_def Let_def)
  have gone: "fs w' dir = None"
    using present ev w' by (simp add: onConnectionUpdate_def Let_def rmSync_def)
  have get: "Map_get sessionId (activeSessions w') = Some (s\<lparr>status := disconnected\<rparr>)"
    using reg by (simp add: Map_get_set_same)
  have notin: "sessionId \<notin> listing_id ` set (list_connected (activeSessions w'))"
  proof
    assume "sessionId \<in> listing_id ` set (list_connected (activeSessions w'))"
    then obtain l where l: "l \<in> set (list_connected ?m)" "listing_id l = sessionId"
      using reg by auto
    then obtain s' where s': "(sessionId, s') \<in> set ?m" "status s' = connected"
      using list_connected_ids [of l ?m] by auto
    then have "s' = s\<lparr>status := disconnected\<rparr>"
      using Map_set_member [OF wf present] by blast
    then show False using s' by simp
  qed
  have ls: "handler_sessions \<lparr>req_method = ''GET'', body_phoneNumber = b, query_sessionId = q\<rparr> w'
       = (\<lparr>res_status = 200, res_json = JsonSessions (list_connected (activeSessions w'))\<rparr>, w')"
    by (simp add: handler_sessions_def)
  have st: "handler_session_status
         \<lparr>req_method = ''GET'', body_phoneNumber = b, query_sessionId = Some sessionId\<rparr> w' =
       (\<lparr>res_status = 200,
         res_json = JsonStatus disconnected (phoneNumber s) (connectedAt s) (githubUrl s)\<rparr>, w')"
    using get sid by (simp add: handler_session_status_def)
  show ?thesis using res get gone notin ls st by blast
qed

theorem logout_close_tears_down_witness:
  "status (example_session\<lparr>status := connected, connectedAt := Some 20\<rparr>) = connected
   \<and> fs example_connected example_dir
       = Some [(''creds.json'', File ''{}''), (''app-state.json'', File ''[]'')]
   \<and> fst (onConnectionUpdate example_env example_id ''2348140825959'' example_dir 30
        (close_event (Some 401)) example_connected) = None
   \<and> fs (snd (onConnectionUpdate example_env example_id ''2348140825959'' example_dir 30
        (close_event (Some 401)) example_connected)) example_dir = None
   \<and> fst (handler_sessions \<lparr>req_method = ''GET'', body_phoneNumber = None, query_sessionId = None\<rparr>
        (snd (onConnectionUpdate example_env example_id ''2348140825959'' example_dir 30
           (close_event (Some 401)) example_connected)))
       = \<lparr>res_status = 200, res_json = JsonSessions []\<rparr>
   \<and> fst (handler_session_status
        \<lparr>req_method = ''GET'', body_phoneNumber = None, query_sessionId = Some example_id\<rparr>
        (snd (onConnectionUpdate example_env example_id ''2348140825959'' example_dir 30
           (close_event (Some 401)) example_connected)))
       = \<lparr>res_status = 200,
          res_json = JsonStatus disconnected ''2348140825959'' (Some 20) None\<rparr>"
proof -
  let ?s = "example_session\<lparr>status := connected, connectedAt := Some 20\<rparr>"
  have present: "Map_get example_id (activeSessions example_connected) = Some ?s"
    by (simp add: example_connected_def)
  have wf: "distinct (map fst (activeSessions example_connected))"
    by (simp add: example_connected_def)
  have ev: "connection (close_event (Some 401)) = Some Close"
    "statusCode (close_event (Some 401)) = Some (loggedOut example_env)"
    by (simp_all add: close_event_def example_env_def)
  have sid: "example_id \<noteq> []" by (simp add: example_id_def)
  have staged: "fs example_connected example_dir
       = Some [(''creds.json'', File ''{}''), (''app-state.json'', File ''[]'')]"
    by (simp add: example_connected_def example_staged_def)
  have empty: "list_connected [(example_id, ?s\<lparr>status := disconnected\<rparr>)] = []"
    by simp
  show ?thesis
    using logout_close_tears_down
      [OF present wf ev sid refl, of "''2348140825959''" example_dir 30 None None] staged
    by (simp add: example_session_def example_connected_def example_staged_def
        onConnectionUpdate_def close_event_def example_env_def Let_def)
qed

section \<open>Pairing codes\<close>

text \<open>
  C9. A session creation gets as far as the connection handle. If the handle reports
  credentials already registered, no pairing code is requested and the returned
  pairingCode is absent, whatever the transport would have answered. If it reports
  credentials not yet registered, a pairing code is requested from the handle within the
  creation call; and when the transport answers a code (a string without line
  terminators), the code is returned cut into groups joined by \<open>-\<close>: every group has
  between one and four characters, every group but the last has exactly four, and the
  groups concatenated are the code.
\<close>

theorem pairing_code_only_for_unregistered:
  assumes dir: "fs w (new_sessionPath phone) = None \<longrightarrow>
                  mkdirSync_error env (new_sessionPath phone) = None"
    and auth: "useMultiFileAuthState env (new_sessionPath phone) = Inr registered"
    and sk: "makeWASocket env (new_sessionPath phone) = Inr sk"
  shows "(registered \<longrightarrow>
            fst (startPairing env now phone w) = Inr (new_sessionId phone now, None)
            \<and> calls (snd (startPairing env now phone w)) = calls w)
         \<and> (\<not> registered \<longrightarrow>
            calls (snd (startPairing env now phone w))
              = calls w @ [RequestPairingCode sk phone]
            \<and> (\<forall>code. requestPairingCode env sk phone = Inr code
                   \<and> (\<forall>c\<in>set code. \<not> isLineTerminator c) \<longrightarrow>
                 fst (startPairing env now phone w)
                   = Inr (new_sessionId phone now, Some (join ''-'' (match_groups code)))
                 \<and> concat (match_groups code) = code
                 \<and> (\<forall>g\<in>set (match_groups code). 1 \<le> length g \<and> length g \<le> 4)
                 \<and> (\<forall>i. Suc i < length (match_groups code)
                        \<longrightarrow> length (match_groups code ! i) = 4)))"
proof -
  have resumed: "registered \<Longrightarrow>
            fst (startPairing env now phone w) = Inr (new_sessionId phone now, None)
            \<and> calls (snd (startPairing env now phone w)) = calls w"
    using dir auth sk
    by (cases "fs w (new_sessionPath phone)") (simp_all add: startPairing_def Let_def)
  have requested: "\<not> registered \<Longrightarrow>
            calls (snd (startPairing env now phone w))
              = calls w @ [RequestPairingCode sk phone]"
    using dir auth sk
    by (cases "fs w (new_sessionPath phone)"; cases "requestPairingCode env sk phone")
       (simp_all add: startPairing_def Let_def)
  have issued: "fst (startPairing env now phone w)
                   = Inr (new_sessionId phone now, Some (join ''-'' (match_groups code)))
                 \<and> concat (match_groups code) = code
                 \<and> (\<forall>g\<in>set (match_groups code). 1 \<le> length g \<and> length g \<le> 4)
                 \<and> (\<forall>i. Suc i < length (match_groups code)
                        \<longrightarrow> length (match_groups code ! i) = 4)"
    if fresh: "\<not> registered" and code: "requestPairingCode env sk phone = Inr code"
      and plain: "\<forall>c\<in>set code. \<not> isLineTerminator c" for code
  proof -
    have fmt: "formatPairingCode code = join ''-'' (match_groups code)"
      using formatPairingCode_plain [OF plain] .
    have run: "fst (startPairing env now phone w)
                   = Inr (new_sessionId phone now, Some (join ''-'' (match_groups code)))"
      using dir auth sk code fmt fresh
      by (cases "fs w (new_sessionPath phone)") (simp_all add: startPairing_def Let_def)
    show ?thesis using run match_groups_plain [OF plain] match_groups_nonempty [of _ code]
      by blast
  qed
  show ?thesis using resumed requested issued by blast
qed

theorem pairing_code_only_for_unregistered_witness:
  "fst (startPairing example_env 17 ''2348140825959'' example_world)
     = Inr (example_id, Some ''ABCD-1234'')
   \<and> calls (snd (startPairing example_env 17 ''2348140825959'' example_world))
     = [RequestPairingCode (Sock example_dir) ''2348140825959'']
   \<and> match_groups ''ABCD1234'' = [''ABCD'', ''1234'']
   \<and> requestPairingCode example_env_resumed (Sock example_dir) ''2348140825959''
     = Inl (Error ''Connection Closed'')
   \<and> fst (startPairing example_env_resumed 17 ''2348140825959'' example_world)
     = Inr (example_id, None)
   \<and> calls (snd (startPairing example_env_resumed 17 ''2348140825959'' example_world)) = []"
proof -
  have dir: "fs example_world (new_sessionPath ''2348140825959'') = None \<longrightarrow>
               mkdirSync_error example_env (new_sessionPath ''2348140825959'') = None"
    by (simp add: example_env_def)
  have auth: "useMultiFileAuthState example_env (new_sessionPath ''2348140825959'') = Inr False"
    by (simp add: example_env_def)
  have sk: "makeWASocket example_env (new_sessionPath ''2348140825959'') = Inr (Sock example_dir)"
    by (simp add: example_env_def example_dir_eq)
  have code: "requestPairingCode example_env (Sock example_dir) ''2348140825959''
                = Inr ''ABCD1234''"
    by (simp add: example_env_def)
  have plain: "\<forall>c\<in>set ''ABCD1234''. \<not> isLineTerminator c"
    by (simp add: isLineTerminator_def)
  have dir': "fs example_world (new_sessionPath ''2348140825959'') = None \<longrightarrow>
               mkdirSync_error example_env_resumed (new_sessionPath ''2348140825959'') = None"
    by (simp add: example_env_resumed_def example_env_def)
  have auth': "useMultiFileAuthState example_env_resumed (new_sessionPath ''2348140825959'')
                 = Inr True"
    by (simp add: example_env_resumed_def)
  have sk': "makeWASocket example_env_resumed (new_sessionPath ''2348140825959'')
               = Inr (Sock example_dir)"
    by (simp add: example_env_resumed_def example_env_def example_dir_eq)
  have rejected: "requestPairingCode example_env_resumed (Sock example_dir) ''2348140825959''
     = Inl (Error ''Connection Closed'')"
    by (simp add: example_env_resumed_def)
  have fresh: "fst (startPairing example_env 17 ''2348140825959'' example_world)
       = Inr (example_id, Some ''ABCD-1234'')
     \<and> calls (snd (startPairing example_env 17 ''2348140825959'' example_world))
       = [RequestPairingCode (Sock example_dir) ''2348140825959'']"
    using pairing_code_only_for_unregistered [OF dir auth sk, of 17] code plain
    by (simp add: example_id_eq example_groups example_world_def)
  have resumed: "fst (startPairing example_env_resumed 17 ''2348140825959'' example_world)
       = Inr (example_id, None)
     \<and> calls (snd (startPairing example_env_resumed 17 ''2348140825959'' example_world)) = []"
    using pairing_code_only_for_unregistered [OF dir' auth' sk', of 17]
    by (simp add: example_id_eq example_world_def)
  show ?thesis using fresh resumed rejected example_groups by simp
qed

section \<open>Method checks of the three endpoints\<close>

text \<open>
  C10. Each of the three handlers supports one method: POST for session creation, GET for
  the session status and for the listing of connected sessions. A request with any other
  method is answered with status 405 and the body \<open>{ error: 'Method not allowed' }\<close>, and
  the state (the registry, and everything else) is returned as it was.
\<close>

theorem method_not_allowed:
  "(req_method req \<noteq> ''POST'' \<longrightarrow>
      handler_request_pairing env now req w =
        (\<lparr>res_status = 405, res_json = JsonError ''Method not allowed''\<rparr>, w))
   \<and> (req_method req \<noteq> ''GET'' \<longrightarrow>
      handler_session_status req w =
        (\<lparr>res_status = 405, res_json = JsonError ''Method not allowed''\<rparr>, w)
      \<and> handler_sessions req w =
        (\<lparr>res_status = 405, res_json = JsonError ''Method not allowed''\<rparr>, w))"
  by (simp add: handler_request_pairing_def handler_session_status_def handler_sessions_def)

theorem method_not_allowed_witness:
  "req_method (example_request ''PUT'') \<noteq> ''POST'' \<and> req_method (example_request ''PUT'') \<noteq> ''GET''
   \<and> handler_request_pairing example_env 17 (example_request ''PUT'') example_world =
        (\<lparr>res_status = 405, res_json = JsonError ''Method not allowed''\<rparr>, example_world)
   \<and> handler_session_status (example_request ''PUT'') example_world =
        (\<lparr>res_status = 405, res_json = JsonError ''Method not allowed''\<rparr>, example_world)
   \<and> handler_sessions (example_request ''PUT'') example_world =
        (\<lparr>res_status = 405, res_json = JsonError ''Method not allowed''\<rparr>, example_world)"
  using method_not_allowed [of "example_request ''PUT''" example_env 17 example_world]
  by (simp add: example_request_def)

end
